theory Spec2Isabelle
  imports Complex_Main
begin

section \<open>Numbers, arrays and errors\<close>

text \<open>
  The package computes on numpy arrays of float64. The embedding idealises a finite
  float64 as a \<open>real\<close> (no rounding, no overflow) and a one-dimensional array as a
  list. A Python exception is a value of \<open>error\<close>; a function that may raise returns
  \<open>error + 'a\<close>, with \<open>Inl\<close> for the exception.
\<close>

datatype error =
    ValueError        \<comment> \<open>raised by the package itself, by \<open>int(nan)\<close> and by \<open>np.linspace\<close>\<close>
  | OverflowError     \<comment> \<open>\<open>int(inf)\<close>\<close>
  | IndexError        \<comment> \<open>\<open>track[0]\<close> on an empty array\<close>
  | SplineError       \<comment> \<open>an exception of the spline-fitting library\<close>
  | NotANumber        \<comment> \<open>the run leaves the reals without raising (see \<open>width_stage\<close>)\<close>

text \<open>
  numpy does not raise on a float division by zero: the quotient is \<open>inf\<close>, \<open>-inf\<close>
  or \<open>nan\<close> (with a warning). An array element that may be such a value is a
  \<open>float64\<close>.
\<close>

datatype float64 = Finite real | NonFinite

definition np_divide :: "real \<Rightarrow> real \<Rightarrow> float64" where
  "np_divide a b = (if b = 0 then NonFinite else Finite (a / b))"

section \<open>calc_ax_profile\<close>

text \<open>
  \<^verbatim>\<open>(np.power(vx_profile[1:], 2) - np.power(vx_profile[:-1], 2)) / (2 * el_lengths)\<close>,
  elementwise over three arrays of the same length (the size check of the caller has
  passed).
\<close>

definition ax_formula :: "real list \<Rightarrow> real list \<Rightarrow> float64 list" where
  "ax_formula vx_profile el_lengths =
     map (\<lambda>((v_end, v_beg), s). np_divide (v_end\<^sup>2 - v_beg\<^sup>2) (2 * s))
       (zip (zip (tl vx_profile) (butlast vx_profile)) el_lengths)"

text \<open>\<^verbatim>\<open>a[:-1] = rhs\<close>: all entries of \<open>a\<close> but the last are overwritten.\<close>

definition assign_butlast :: "'a list \<Rightarrow> 'a list \<Rightarrow> 'a list" where
  "assign_butlast a rhs = rhs @ drop (length a - 1) a"

definition calc_ax_profile :: "real list \<Rightarrow> real list \<Rightarrow> bool \<Rightarrow> error + float64 list" where
  "calc_ax_profile vx_profile el_lengths eq_length_output =
     (if length vx_profile \<noteq> length el_lengths + 1 then Inl ValueError
      else if eq_length_output then
        Inr (assign_butlast (replicate (length vx_profile) (Finite 0))
               (ax_formula vx_profile el_lengths))
      else Inr (ax_formula vx_profile el_lengths))"

section \<open>The numpy operations the package calls\<close>

text \<open>
  \<^verbatim>\<open>np.sqrt(np.sum(np.power(np.diff(P, axis=0), 2), axis=1))\<close> for an array \<open>P\<close> of
  rows \<open>(x, y)\<close>: the Euclidean lengths of the segments between consecutive rows
  (none for fewer than two rows).
\<close>

definition diff_norms :: "(real \<times> real) list \<Rightarrow> real list" where
  "diff_norms P =
     map (\<lambda>(p, q). sqrt ((fst q - fst p)\<^sup>2 + (snd q - snd p)\<^sup>2)) (zip P (tl P))"

primrec cumsum_from :: "real \<Rightarrow> real list \<Rightarrow> real list" where
  "cumsum_from acc [] = []"
| "cumsum_from acc (a # as) = (acc + a) # cumsum_from (acc + a) as"

definition np_cumsum :: "real list \<Rightarrow> real list" where
  "np_cumsum a = cumsum_from 0 a"

text \<open>
  \<^verbatim>\<open>int(np.ceil(a / b))\<close> for a float64 \<open>a\<close>: the division by zero gives \<open>nan\<close>
  (for \<open>0 / 0\<close>) or an infinity, and \<open>int\<close> raises on both.
\<close>

definition int_ceil_div :: "real \<Rightarrow> real \<Rightarrow> error + int" where
  "int_ceil_div a b =
     (if b = 0 then (if a = 0 then Inl ValueError else Inl OverflowError)
      else Inr \<lceil>a / b\<rceil>)"

text \<open>
  \<^verbatim>\<open>np.linspace(start, stop, num)\<close> (the end point included): a negative \<open>num\<close> raises;
  otherwise \<open>arange(num) * step + start\<close> with \<open>step = (stop - start) / (num - 1)\<close>, the
  last entry then set to \<open>stop\<close>; for \<open>num \<le> 1\<close> there is no step and the entries are
  \<open>arange(num) * (stop - start) + start\<close>.
\<close>

definition linspace_pts :: "real \<Rightarrow> real \<Rightarrow> nat \<Rightarrow> real list" where
  "linspace_pts start stop num =
     (if num \<le> 1 then map (\<lambda>i. real i * (stop - start) + start) [0..<num]
      else (map (\<lambda>i. real i * ((stop - start) / real (num - 1)) + start) [0..<num])
             [num - 1 := stop])"

definition np_linspace :: "real \<Rightarrow> real \<Rightarrow> int \<Rightarrow> error + real list" where
  "np_linspace start stop num =
     (if num < 0 then Inl ValueError else Inr (linspace_pts start stop (nat num)))"

text \<open>
  \<^verbatim>\<open>np.interp(x, xp, fp)\<close>. numpy looks for the index \<open>j\<close> with
  \<open>xp[j] \<le> x < xp[j+1]\<close>; \<open>search_index\<close> is its linear search
  (\<^verbatim>\<open>for (i = 1; i < len && key >= arr[i]; ++i); return i - 1\<close>), which is what its
  bisection returns too when \<open>xp\<close> is non-decreasing (for other \<open>xp\<close> numpy documents
  no result). Left of \<open>xp[0]\<close> the value is \<open>fp[0]\<close>, right of \<open>xp[-1]\<close> it is
  \<open>fp[-1]\<close>. It raises for an empty \<open>xp\<close> and for \<open>xp\<close> and \<open>fp\<close> of different lengths.
\<close>

definition search_index :: "real \<Rightarrow> real list \<Rightarrow> nat" where
  "search_index key arr = length (takeWhile (\<lambda>a. a \<le> key) (tl arr))"

definition interp_at :: "real list \<Rightarrow> real list \<Rightarrow> real \<Rightarrow> real" where
  "interp_at xp fp x =
     (if x > last xp then last fp
      else if x < hd xp then hd fp
      else
        let j = search_index x xp in
        if j = length xp - 1 then fp ! j
        else if xp ! j = x then fp ! j
        else (fp ! (j + 1) - fp ! j) / (xp ! (j + 1) - xp ! j) * (x - xp ! j) + fp ! j)"

definition np_interp :: "real list \<Rightarrow> real list \<Rightarrow> real list \<Rightarrow> error + real list" where
  "np_interp x xp fp =
     (if xp = [] \<or> length fp \<noteq> length xp then Inl ValueError
      else Inr (map (interp_at xp fp) x))"

section \<open>spline_approximation\<close>

subsection \<open>Data\<close>

text \<open>A row \<open>[x, y, w_tr_right, w_tr_left]\<close> of a track array.\<close>

record track_row =
  x_pos :: real
  y_pos :: real
  w_tr_right :: real
  w_tr_left :: real

text \<open>\<^verbatim>\<open>track[i, :2]\<close>\<close>

definition xy :: "track_row \<Rightarrow> real \<times> real" where
  "xy r = (x_pos r, y_pos r)"

text \<open>
  What the function calls and the repository's files here do not hold: scipy's
  \<open>interpolate.splprep\<close> (called with \<open>per=1\<close>; the arguments are the two coordinate
  channels, \<open>k\<close> and \<open>s\<close>; it returns the spline \<open>tck\<close> and the parameter array, or
  raises), \<open>interpolate.splev\<close> (a parameter value and a spline to a point),
  \<open>optimize.fmin\<close> (an objective and a start value to the minimising value; the
  extra arguments of the objective are bound in the objective), and the package's own
  \<open>side_of_line\<close> (\<open>a\<close>, \<open>b\<close>, \<open>z\<close> to a sign). They are parameters of the model.
\<close>

record 'tck collaborators =
  splprep :: "real list \<Rightarrow> real list \<Rightarrow> int \<Rightarrow> real \<Rightarrow> error + 'tck \<times> real list"
  splev :: "real \<Rightarrow> 'tck \<Rightarrow> real \<times> real"
  fmin :: "(real \<Rightarrow> real) \<Rightarrow> real \<Rightarrow> real"
  side_of_line :: "real \<times> real \<Rightarrow> real \<times> real \<Rightarrow> real \<times> real \<Rightarrow> real"

text \<open>
  The local variables of the three parts of the function, under their names in the
  source. \<open>t_reg_cl\<close> names the array \<^verbatim>\<open>np.linspace(0.0, 1.0, no_points_reg_cl)\<close> of
  line 79, which the source does not bind to a variable.
\<close>

record prep =
  track_cl :: "track_row list"
  no_points_track_cl :: nat
  el_lengths_cl :: "real list"
  dists_cum_cl :: "real list"
  no_points_interp_cl :: int
  dists_interp_cl :: "real list"
  track_interp_cl :: "track_row list"

record 'tck smooth =
  tck_cl :: 'tck
  t_glob_cl :: "real list"
  no_points_lencalc_cl :: int
  path_smoothed_tmp :: "(real \<times> real) list"
  len_path_smoothed_tmp :: real
  no_points_reg_cl :: int
  t_reg_cl :: "real list"
  path_smoothed :: "(real \<times> real) list"

record widths =
  t_glob_guess_cl :: "real list"
  closest_t_glob_cl :: "real list"
  closest_point_cl :: "(real \<times> real) list"
  dists_cl :: "real list"
  sides :: "real list"
  sides_cl :: "real list"
  w_tr_right_new_cl :: "real list"
  w_tr_left_new_cl :: "real list"
  w_tr_right_smoothed_cl :: "real list"
  w_tr_left_smoothed_cl :: "real list"

text \<open>
  The line that \<open>debug\<close> prints: the mean and the maximum of the distances (the
  formatting to two decimals is not modelled).
\<close>

datatype printed = Deviation real real

subsection \<open>Linear interpolation before smoothing (lines 39 to 59)\<close>

definition prep_stage :: "track_row list \<Rightarrow> real \<Rightarrow> error + prep" where
  "prep_stage track stepsize_prep =
     (case track of
        [] \<Rightarrow> Inl IndexError
      | row0 # _ \<Rightarrow>
         let track_cl' = track @ [row0];
             el_lengths_cl' = diff_norms (map xy track_cl');
             dists_cum_cl' = 0 # np_cumsum el_lengths_cl'
         in
         case int_ceil_div (last dists_cum_cl') stepsize_prep of
           Inl e \<Rightarrow> Inl e
         | Inr c \<Rightarrow>
         case np_linspace 0 (last dists_cum_cl') (c + 1) of
           Inl e \<Rightarrow> Inl e
         | Inr dists_interp_cl' \<Rightarrow>
         case np_interp dists_interp_cl' dists_cum_cl' (map x_pos track_cl') of
           Inl e \<Rightarrow> Inl e
         | Inr c0 \<Rightarrow>
         case np_interp dists_interp_cl' dists_cum_cl' (map y_pos track_cl') of
           Inl e \<Rightarrow> Inl e
         | Inr c1 \<Rightarrow>
         case np_interp dists_interp_cl' dists_cum_cl' (map w_tr_right track_cl') of
           Inl e \<Rightarrow> Inl e
         | Inr c2 \<Rightarrow>
         case np_interp dists_interp_cl' dists_cum_cl' (map w_tr_left track_cl') of
           Inl e \<Rightarrow> Inl e
         | Inr c3 \<Rightarrow>
           Inr \<lparr>track_cl = track_cl',
                no_points_track_cl = length track_cl',
                el_lengths_cl = el_lengths_cl',
                dists_cum_cl = dists_cum_cl',
                no_points_interp_cl = c + 1,
                dists_interp_cl = dists_interp_cl',
                track_interp_cl =
                  map (\<lambda>i. \<lparr>x_pos = c0 ! i, y_pos = c1 ! i,
                             w_tr_right = c2 ! i, w_tr_left = c3 ! i\<rparr>)
                    [0..<nat (c + 1)]\<rparr>)"

subsection \<open>Spline approximation and path smoothing (lines 65 to 79)\<close>

definition smooth_stage ::
  "'tck collaborators \<Rightarrow> prep \<Rightarrow> int \<Rightarrow> real \<Rightarrow> real \<Rightarrow> error + 'tck smooth" where
  "smooth_stage c p k_reg s_reg stepsize_reg =
     (case splprep c (map x_pos (track_interp_cl p)) (map y_pos (track_interp_cl p))
             k_reg s_reg of
        Inl e \<Rightarrow> Inl e
      | Inr (tck, t_glob) \<Rightarrow>
         let no_points_lencalc = \<lceil>last (dists_cum_cl p)\<rceil> * 4 in
         case np_linspace 0 1 no_points_lencalc of
           Inl e \<Rightarrow> Inl e
         | Inr t_lencalc \<Rightarrow>
         let path_tmp = map (\<lambda>t. splev c t tck) t_lencalc;
             len_path = sum_list (diff_norms path_tmp)
         in
         case int_ceil_div len_path stepsize_reg of
           Inl e \<Rightarrow> Inl e
         | Inr q \<Rightarrow>
         case np_linspace 0 1 (q + 1) of
           Inl e \<Rightarrow> Inl e
         | Inr t_reg \<Rightarrow>
           Inr \<lparr>tck_cl = tck,
                t_glob_cl = t_glob,
                no_points_lencalc_cl = no_points_lencalc,
                path_smoothed_tmp = path_tmp,
                len_path_smoothed_tmp = len_path,
                no_points_reg_cl = q + 1,
                t_reg_cl = t_reg,
                path_smoothed = butlast (map (\<lambda>t. splev c t tck) t_reg)\<rparr>)"

subsection \<open>Track widths (lines 85 to 125)\<close>

text \<open>\<open>spatial.distance.euclidean(p, s)\<close> for two points of the plane.\<close>

definition euclidean :: "real \<times> real \<Rightarrow> real \<times> real \<Rightarrow> real" where
  "euclidean p s = sqrt ((fst p - fst s)\<^sup>2 + (snd p - snd s)\<^sup>2)"

definition dist_to_p :: "'tck collaborators \<Rightarrow> real \<Rightarrow> 'tck \<Rightarrow> real \<times> real \<Rightarrow> real" where
  "dist_to_p c t_glob path p = (let s = splev c t_glob path in euclidean p s)"

text \<open>
  One pass of the loop of lines 91 to 103, for the index \<open>i\<close>: the entries \<open>i\<close> of
  \<open>closest_t_glob_cl\<close>, \<open>closest_point_cl\<close> and \<open>dists_cl\<close>.
\<close>

definition closest_on_spline ::
  "'tck collaborators \<Rightarrow> 'tck \<Rightarrow> track_row list \<Rightarrow> real list \<Rightarrow> nat
     \<Rightarrow> real \<times> (real \<times> real) \<times> real" where
  "closest_on_spline c tck track_cl' t_glob_guess_cl' i =
     (let closest_t = fmin c (\<lambda>t_glob. dist_to_p c t_glob tck (xy (track_cl' ! i)))
                        (t_glob_guess_cl' ! i);
          closest_point = splev c closest_t tck;
          dist = sqrt ((fst closest_point - x_pos (track_cl' ! i))\<^sup>2
                       + (snd closest_point - y_pos (track_cl' ! i))\<^sup>2)
      in (closest_t, closest_point, dist))"

text \<open>
  The start guesses are \<open>dists_cum_cl / dists_cum_cl[-1]\<close>. For a perimeter of zero
  numpy divides \<open>0 / 0\<close> and goes on with \<open>nan\<close> without raising; the reals have no such
  value, and the model stops there with \<open>NotANumber\<close>.
\<close>

definition width_stage ::
  "'tck collaborators \<Rightarrow> prep \<Rightarrow> 'tck \<Rightarrow> int \<Rightarrow> error + widths" where
  "width_stage c p tck no_points_reg =
     (if last (dists_cum_cl p) = 0 then Inl NotANumber
      else
        let t_glob_guess = map (\<lambda>d. d / last (dists_cum_cl p)) (dists_cum_cl p);
            closest = map (closest_on_spline c tck (track_cl p) t_glob_guess)
                        [0..<no_points_track_cl p];
            closest_t_glob = map fst closest;
            closest_point = map (fst \<circ> snd) closest;
            dists = map (snd \<circ> snd) closest;
            sides' = map (\<lambda>i. side_of_line c (xy (track_cl p ! i)) (xy (track_cl p ! (i + 1)))
                                 (closest_point ! i))
                      [0..<no_points_track_cl p - 1]
        in
        case sides' of
          [] \<Rightarrow> Inl IndexError
        | side0 # _ \<Rightarrow>
        let sides_cl' = sides' @ [side0];
            w_tr_right_new = map (\<lambda>(w, s, d). w + s * d)
                               (zip (map w_tr_right (track_cl p)) (zip sides_cl' dists));
            w_tr_left_new = map (\<lambda>(w, s, d). w - s * d)
                              (zip (map w_tr_left (track_cl p)) (zip sides_cl' dists))
        in
        case np_linspace 0 1 no_points_reg of
          Inl e \<Rightarrow> Inl e
        | Inr t_reg \<Rightarrow>
        case np_interp t_reg closest_t_glob w_tr_right_new of
          Inl e \<Rightarrow> Inl e
        | Inr w_tr_right_smoothed \<Rightarrow>
        case np_interp t_reg closest_t_glob w_tr_left_new of
          Inl e \<Rightarrow> Inl e
        | Inr w_tr_left_smoothed \<Rightarrow>
          Inr \<lparr>t_glob_guess_cl = t_glob_guess,
               closest_t_glob_cl = closest_t_glob,
               closest_point_cl = closest_point,
               dists_cl = dists,
               sides = sides',
               sides_cl = sides_cl',
               w_tr_right_new_cl = w_tr_right_new,
               w_tr_left_new_cl = w_tr_left_new,
               w_tr_right_smoothed_cl = w_tr_right_smoothed,
               w_tr_left_smoothed_cl = w_tr_left_smoothed\<rparr>)"

subsection \<open>The function\<close>

text \<open>
  \<^verbatim>\<open>np.column_stack((path_smoothed, w_tr_right_smoothed_cl[:-1], w_tr_left_smoothed_cl[:-1]))\<close>;
  the three arrays have the same number of rows whenever the line is reached.
\<close>

definition column_stack :: "(real \<times> real) list \<Rightarrow> real list \<Rightarrow> real list \<Rightarrow> track_row list" where
  "column_stack path w_right w_left =
     map (\<lambda>(pt, wr, wl). \<lparr>x_pos = fst pt, y_pos = snd pt, w_tr_right = wr, w_tr_left = wl\<rparr>)
       (zip path (zip w_right w_left))"

text \<open>\<open>np.mean(dists_cl)\<close> and \<open>np.amax(np.abs(dists_cl))\<close>, printed when \<open>debug\<close> is set.\<close>

definition debug_line :: "real list \<Rightarrow> printed" where
  "debug_line dists =
     Deviation (sum_list dists / real (length dists))
       (fold max (tl (map abs dists)) (hd (map abs dists)))"

record 'tck run =
  prep_vars :: prep
  smooth_vars :: "'tck smooth"
  width_vars :: widths
  stdout :: "printed list"
  track_reg :: "track_row list"

text \<open>
  A run of the function with all its local variables. \<open>k_reg\<close> and \<open>s_reg\<close> go to
  \<open>splprep\<close> only. The line of \<open>debug\<close> is printed between the loop of the closest
  points and the computation of the sides; \<open>stdout\<close> holds it for a run that returns.
\<close>

definition spline_approximation_run ::
  "'tck collaborators \<Rightarrow> track_row list \<Rightarrow> int \<Rightarrow> real \<Rightarrow> real \<Rightarrow> real \<Rightarrow> bool
     \<Rightarrow> error + 'tck run" where
  "spline_approximation_run c track k_reg s_reg stepsize_prep stepsize_reg debug =
     (case prep_stage track stepsize_prep of
        Inl e \<Rightarrow> Inl e
      | Inr p \<Rightarrow>
      case smooth_stage c p k_reg s_reg stepsize_reg of
        Inl e \<Rightarrow> Inl e
      | Inr sm \<Rightarrow>
      case width_stage c p (tck_cl sm) (no_points_reg_cl sm) of
        Inl e \<Rightarrow> Inl e
      | Inr w \<Rightarrow>
        Inr \<lparr>prep_vars = p,
             smooth_vars = sm,
             width_vars = w,
             stdout = (if debug then [debug_line (dists_cl w)] else []),
             track_reg = column_stack (path_smoothed sm)
                           (butlast (w_tr_right_smoothed_cl w))
                           (butlast (w_tr_left_smoothed_cl w))\<rparr>)"

text \<open>What the caller gets: the exception, or the array \<open>track_reg\<close>.\<close>

definition spline_approximation ::
  "'tck collaborators \<Rightarrow> track_row list \<Rightarrow> int \<Rightarrow> real \<Rightarrow> real \<Rightarrow> real \<Rightarrow> bool
     \<Rightarrow> error + track_row list" where
  "spline_approximation c track k_reg s_reg stepsize_prep stepsize_reg debug =
     (case spline_approximation_run c track k_reg s_reg stepsize_prep stepsize_reg debug of
        Inl e \<Rightarrow> Inl e
      | Inr r \<Rightarrow> Inr (track_reg r))"

section \<open>Piecewise-linear interpolation, as the specification words it\<close>





section \<open>A worked run\<close>

text \<open>
  One run of \<open>spline_approximation\<close>, worked out in full: a track of two points, from
  \<open>(0, 0)\<close> to \<open>(0, -1/10)\<close>, with widths \<open>1\<close>, and stand-ins for what the function
  calls. The spline is a closed curve of three straight pieces through \<open>(0, 1/4)\<close>
  (at the parameters \<open>0\<close> and \<open>1\<close>), \<open>(2/5, -1/20)\<close> (at \<open>1/3\<close>) and \<open>(-2/5, -1/20)\<close>
  (at \<open>2/3\<close>); the fit returns it for any input of more than \<open>k\<close> points. The run
  is the call with \<open>k_reg = 1\<close>, \<open>s_reg = 0\<close>, \<open>stepsize_prep = 1/10\<close> and
  \<open>stepsize_reg = 9/10\<close>.
\<close>

definition demo_splev :: "real \<Rightarrow> unit \<Rightarrow> real \<times> real" where
  "demo_splev t tck =
     (if t \<le> 1/3 then (6/5 * t, 1/4 - 9/10 * t)
      else if t \<le> 2/3 then (2/5 - 12/5 * (t - 1/3), - 1/20)
      else (- 2/5 + 6/5 * (t - 2/3), - 1/20 + 9/10 * (t - 2/3)))"

text \<open>
  The minimiser is one step of a pattern search on \<open>[0, 1]\<close>: it compares the objective
  at the start value and one tenth to either side of it.
\<close>

definition demo_fmin :: "(real \<Rightarrow> real) \<Rightarrow> real \<Rightarrow> real" where
  "demo_fmin f x0 =
     (let up = min 1 (x0 + 1/10); down = max 0 (x0 - 1/10) in
      if f up < f x0 \<and> f up \<le> f down then up
      else if f down < f x0 then down
      else x0)"

text \<open>
  Modelled from the spec: \<open>side_of_line\<close>, a module of the package that is not among
  the source files. The specification gives it as the sign of a two-dimensional cross
  product, \<open>+1\<close> for a point \<open>z\<close> to the right of the line from \<open>a\<close> to \<open>b\<close>, \<open>-1\<close> to
  the left, \<open>0\<close> on the line.
\<close>

definition side_of_line_spec :: "real \<times> real \<Rightarrow> real \<times> real \<Rightarrow> real \<times> real \<Rightarrow> real" where
  "side_of_line_spec a b z =
     sgn ((fst z - fst a) * (snd b - snd a) - (snd z - snd a) * (fst b - fst a))"

definition demo_splprep :: "real list \<Rightarrow> real list \<Rightarrow> int \<Rightarrow> real \<Rightarrow> error + unit \<times> real list" where
  "demo_splprep xs ys k s =
     (if int (length xs) \<le> k then Inl SplineError
      else Inr ((), linspace_pts 0 1 (length xs)))"

definition demo :: "unit collaborators" where
  "demo = \<lparr>splprep = demo_splprep, splev = demo_splev, fmin = demo_fmin,
            side_of_line = side_of_line_spec\<rparr>"

definition demo_track :: "track_row list" where
  "demo_track = [\<lparr>x_pos = 0, y_pos = 0, w_tr_right = 1, w_tr_left = 1\<rparr>,
                 \<lparr>x_pos = 0, y_pos = - 1/10, w_tr_right = 1, w_tr_left = 1\<rparr>]"

text \<open>The local variables and the result of the run on \<open>demo_track\<close>.\<close>

definition demo_prep :: prep where
  "demo_prep =
     \<lparr>track_cl = demo_track @ [hd demo_track],
      no_points_track_cl = 3,
      el_lengths_cl = [1/10, 1/10],
      dists_cum_cl = [0, 1/10, 1/5],
      no_points_interp_cl = 3,
      dists_interp_cl = [0, 1/10, 1/5],
      track_interp_cl = demo_track @ [hd demo_track]\<rparr>"

definition demo_smooth :: "unit smooth" where
  "demo_smooth =
     \<lparr>tck_cl = (),
      t_glob_cl = [0, 1/2, 1],
      no_points_lencalc_cl = 4,
      path_smoothed_tmp = [(0, 1/4), (2/5, - 1/20), (- 2/5, - 1/20), (0, 1/4)],
      len_path_smoothed_tmp = 9/5,
      no_points_reg_cl = 3,
      t_reg_cl = [0, 1/2, 1],
      path_smoothed = [(0, 1/4), (0, - 1/20)]\<rparr>"

definition demo_widths :: widths where
  "demo_widths =
     \<lparr>t_glob_guess_cl = [0, 1/2, 1],
      closest_t_glob_cl = [1/10, 1/2, 9/10],
      closest_point_cl = [(3/25, 4/25), (0, - 1/20), (- 3/25, 4/25)],
      dists_cl = [1/5, 1/20, 1/5],
      sides = [- 1, 0],
      sides_cl = [- 1, 0, - 1],
      w_tr_right_new_cl = [4/5, 1, 4/5],
      w_tr_left_new_cl = [6/5, 1, 6/5],
      w_tr_right_smoothed_cl = [4/5, 1, 4/5],
      w_tr_left_smoothed_cl = [6/5, 1, 6/5]\<rparr>"

definition demo_run :: "bool \<Rightarrow> unit run" where
  "demo_run debug =
     \<lparr>prep_vars = demo_prep, smooth_vars = demo_smooth, width_vars = demo_widths,
      stdout = (if debug then [Deviation (3/20) (1/5)] else []),
      track_reg = [\<lparr>x_pos = 0, y_pos = 1/4, w_tr_right = 4/5, w_tr_left = 6/5\<rparr>,
                   \<lparr>x_pos = 0, y_pos = - 1/20, w_tr_right = 1, w_tr_left = 1\<rparr>]\<rparr>"

section \<open>Properties of calc_ax_profile\<close>

lemma length_ax_formula:
  "length vx_profile = length el_lengths + 1 \<Longrightarrow>
   length (ax_formula vx_profile el_lengths) = length el_lengths"
  by (simp add: ax_formula_def)

lemma nth_ax_formula:
  assumes "length vx_profile = length el_lengths + 1" and "i < length el_lengths"
  shows "ax_formula vx_profile el_lengths ! i =
         np_divide ((vx_profile ! (i + 1))\<^sup>2 - (vx_profile ! i)\<^sup>2) (2 * el_lengths ! i)"
  using assms by (simp add: ax_formula_def nth_tl nth_butlast)

text \<open>
  C5. For a velocity array of length \<open>n \<ge> 2\<close> and \<open>n - 1\<close> nonzero element lengths,
  the call without \<open>eq_length_output\<close> returns \<open>n - 1\<close> finite accelerations
  \<open>(V[i+1]\<^sup>2 - V[i]\<^sup>2) / (2 L[i])\<close>; they are all \<open>0\<close> for a constant velocity, and
  \<open>V = [0, 10]\<close>, \<open>L = [5]\<close> gives \<open>[10]\<close>.
\<close>

theorem calc_ax_profile_formula:
  assumes "2 \<le> length V" and "length L = length V - 1" and "\<forall>l \<in> set L. l \<noteq> 0"
  shows "\<exists>A. calc_ax_profile V L False = Inr A \<and> length A = length V - 1
           \<and> (\<forall>i < length V - 1.
                 A ! i = Finite (((V ! (i + 1))\<^sup>2 - (V ! i)\<^sup>2) / (2 * L ! i)))
           \<and> ((\<forall>i < length V. V ! i = V ! 0) \<longrightarrow> (\<forall>i < length V - 1. A ! i = Finite 0))
           \<and> calc_ax_profile [0, 10] [5] False = Inr [Finite 10]"
proof -
  have len: "length V = length L + 1" using assms(1,2) by simp
  have run: "calc_ax_profile V L False = Inr (ax_formula V L)"
    using len by (simp add: calc_ax_profile_def)
  have nth: "ax_formula V L ! i = Finite (((V ! (i + 1))\<^sup>2 - (V ! i)\<^sup>2) / (2 * L ! i))"
    if "i < length V - 1" for i
  proof -
    have "i < length L" using that assms(2) by simp
    moreover from this have "L ! i \<noteq> 0" using assms(3) by simp
    ultimately show ?thesis by (simp add: nth_ax_formula [OF len] np_divide_def)
  qed
  have const: "ax_formula V L ! i = Finite 0"
    if c: "\<forall>i < length V. V ! i = V ! 0" and i: "i < length V - 1" for i
  proof -
    have "V ! (i + 1) = V ! 0" and "V ! i = V ! 0" using c i by simp_all
    then show ?thesis using nth [OF i] by simp
  qed
  have example: "calc_ax_profile [0, 10] [5] False = Inr [Finite 10]"
    by (simp add: calc_ax_profile_def ax_formula_def np_divide_def)
  show ?thesis
    using run nth const length_ax_formula [OF len] assms(2) example by simp
qed

theorem calc_ax_profile_formula_witness:
  "\<exists>A. calc_ax_profile [3, 3, 3] [2, 4] False = Inr A \<and> length A = 2
        \<and> A ! 0 = Finite 0 \<and> A ! 1 = Finite 0"
proof -
  have "\<forall>i < length [3, 3, 3 :: real]. [3, 3, 3 :: real] ! i = [3, 3, 3] ! 0"
    by (simp add: less_Suc_eq)
  then show ?thesis
    using calc_ax_profile_formula [of "[3, 3, 3]" "[2, 4]"] by auto
qed

text \<open>
  C6. The call raises exactly when the size of \<open>vx_profile\<close> is not the size of
  \<open>el_lengths\<close> plus one; the exception is the \<open>ValueError\<close> of the input check, and a
  call that raises returns no array.
\<close>

theorem calc_ax_profile_raises_iff:
  "(\<exists>e. calc_ax_profile vx_profile el_lengths eq_length_output = Inl e)
     = (length vx_profile \<noteq> length el_lengths + 1)
   \<and> (\<exists>e. calc_ax_profile vx_profile el_lengths eq_length_output = Inl e)
     = (calc_ax_profile vx_profile el_lengths eq_length_output = Inl ValueError)
   \<and> (\<exists>e. calc_ax_profile vx_profile el_lengths eq_length_output = Inl e)
     = (\<nexists>A. calc_ax_profile vx_profile el_lengths eq_length_output = Inr A)"
  by (auto simp: calc_ax_profile_def)

text \<open>
  C7. For sizes that pass the check, the call with \<open>eq_length_output\<close> returns an array
  as long as \<open>vx_profile\<close> whose last entry is \<open>0\<close> and whose other entries are those of
  the call without \<open>eq_length_output\<close>.
\<close>

theorem calc_ax_profile_eq_length:
  assumes "length V = length L + 1"
  shows "\<exists>A B. calc_ax_profile V L True = Inr A \<and> calc_ax_profile V L False = Inr B
           \<and> length A = length V \<and> last A = Finite 0 \<and> A ! (length V - 1) = Finite 0
           \<and> length B = length V - 1 \<and> take (length V - 1) A = B
           \<and> (\<forall>i < length V - 1. A ! i = B ! i)"
proof -
  let ?B = "ax_formula V L"
  let ?A = "assign_butlast (replicate (length V) (Finite 0)) ?B"
  have lenB: "length ?B = length L" using assms by (rule length_ax_formula)
  have "drop (length V - 1) (replicate (length V) (Finite 0)) =
        replicate (length V - (length V - 1)) (Finite 0)"
    by (rule drop_replicate)
  then have A: "?A = ?B @ [Finite 0]"
    using assms by (simp add: assign_butlast_def)
  have "calc_ax_profile V L True = Inr ?A" "calc_ax_profile V L False = Inr ?B"
    using assms by (simp_all add: calc_ax_profile_def)
  moreover have "length ?A = length V" using A lenB assms by simp
  moreover have "last ?A = Finite 0" "?A ! (length V - 1) = Finite 0"
    using A lenB assms by (simp_all add: nth_append)
  moreover have "length ?B = length V - 1" using lenB assms by simp
  moreover have "take (length V - 1) ?A = ?B" using A lenB assms by simp
  moreover have "\<forall>i < length V - 1. ?A ! i = ?B ! i"
    using A lenB assms by (simp add: nth_append)
  ultimately show ?thesis by blast
qed

theorem calc_ax_profile_eq_length_witness:
  "calc_ax_profile [0, 10] [5] True = Inr [Finite 10, Finite 0]
   \<and> calc_ax_profile [0, 10] [5] False = Inr [Finite 10]"
proof -
  have h: "length [0, 10 :: real] = length [5 :: real] + 1" by simp
  have "calc_ax_profile [0, 10] [5] False = Inr [Finite 10]"
    by (simp add: calc_ax_profile_def ax_formula_def np_divide_def)
  moreover from calc_ax_profile_eq_length [OF h]
  obtain A B where "calc_ax_profile [0, 10] [5] True = Inr A"
    and "calc_ax_profile [0, 10] [5] False = Inr B"
    and "length A = 2" and "last A = Finite 0" and "take 1 A = B"
    by auto
  ultimately show ?thesis
    by (cases A; cases "tl A") auto
qed

section \<open>Facts about the numpy operations\<close>

lemma length_cumsum_from: "length (cumsum_from acc a) = length a"
  by (induction a arbitrary: acc) simp_all

lemma nth_cumsum_from:
  "i < length a \<Longrightarrow> cumsum_from acc a ! i = acc + sum_list (take (Suc i) a)"
proof (induction a arbitrary: acc i)
  case Nil
  then show ?case by simp
next
  case (Cons x a)
  then show ?case by (cases i) (simp_all add: add.assoc)
qed

text \<open>The array \<open>dists_cum_cl\<close> for the element lengths \<open>el\<close>.\<close>

lemma length_dists_cum: "length (0 # np_cumsum el) = length el + 1"
  by (simp add: np_cumsum_def length_cumsum_from)

lemma nth_dists_cum:
  "i \<le> length el \<Longrightarrow> (0 # np_cumsum el) ! i = sum_list (take i el)"
  by (cases i) (simp_all add: np_cumsum_def nth_cumsum_from)

lemma last_dists_cum: "last (0 # np_cumsum el) = sum_list el"
proof -
  have "last (0 # np_cumsum el) = (0 # np_cumsum el) ! (length (0 # np_cumsum el) - 1)"
    by (rule last_conv_nth) simp
  also have "\<dots> = (0 # np_cumsum el) ! length el"
    by (simp only: length_dists_cum add_diff_cancel_right')
  finally show ?thesis by (simp add: nth_dists_cum)
qed




lemma length_diff_norms: "length (diff_norms P) = length P - 1"
  by (simp add: diff_norms_def)


lemma diff_norms_nonneg: "\<forall>e \<in> set (diff_norms P). 0 \<le> e"
  by (auto simp: diff_norms_def)

lemma sum_list_diff_norms_nonneg: "0 \<le> sum_list (diff_norms P)"
  using diff_norms_nonneg by (simp add: sum_list_nonneg)


lemma length_linspace_pts: "length (linspace_pts start stop num) = num"
  by (simp add: linspace_pts_def)

lemma nth_linspace_pts:
  assumes "k < num"
  shows "linspace_pts start stop num ! k =
         (if num = 1 then start else start + real k * ((stop - start) / real (num - 1)))"
proof (cases "num \<le> 1")
  case True
  then show ?thesis using assms by (simp add: linspace_pts_def)
next
  case False
  then have n: "1 < num" by simp
  show ?thesis
  proof (cases "k = num - 1")
    case True
    then show ?thesis using n by (simp add: linspace_pts_def)
  next
    case False
    then show ?thesis using n assms by (simp add: linspace_pts_def)
  qed
qed









section \<open>Facts about the parts of spline_approximation\<close>

lemma np_interp_Inr:
  "xp \<noteq> [] \<Longrightarrow> length fp = length xp \<Longrightarrow> np_interp x xp fp = Inr (map (interp_at xp fp) x)"
  by (simp add: np_interp_def)

text \<open>The first part of the function, with the calls of numpy that cannot raise resolved.\<close>

lemma prep_stage_eq:
  "prep_stage track stepsize_prep =
     (if track = [] then Inl IndexError
      else
        let cl = track @ [hd track];
            el = diff_norms (map xy cl);
            cum = 0 # np_cumsum el;
            total = sum_list el
        in
        if stepsize_prep = 0 then (if total = 0 then Inl ValueError else Inl OverflowError)
        else if \<lceil>total / stepsize_prep\<rceil> + 1 < 0 then Inl ValueError
        else
          let targets = linspace_pts 0 total (nat (\<lceil>total / stepsize_prep\<rceil> + 1)) in
          Inr \<lparr>track_cl = cl,
               no_points_track_cl = length track + 1,
               el_lengths_cl = el,
               dists_cum_cl = cum,
               no_points_interp_cl = \<lceil>total / stepsize_prep\<rceil> + 1,
               dists_interp_cl = targets,
               track_interp_cl =
                 map (\<lambda>t. \<lparr>x_pos = interp_at cum (map x_pos cl) t,
                            y_pos = interp_at cum (map y_pos cl) t,
                            w_tr_right = interp_at cum (map w_tr_right cl) t,
                            w_tr_left = interp_at cum (map w_tr_left cl) t\<rparr>)
                   targets\<rparr>)"
proof (cases "track = []")
  case True
  then show ?thesis by (simp add: prep_stage_def)
next
  case False
  let ?cl = "track @ [hd track]"
  let ?el = "diff_norms (map xy ?cl)"
  let ?cum = "0 # np_cumsum ?el"
  let ?total = "sum_list ?el"
  let ?N = "\<lceil>?total / stepsize_prep\<rceil> + 1"
  have last: "last ?cum = ?total" by (rule last_dists_cum)
  have len: "length ?cum = length ?cl"
    by (simp add: np_cumsum_def length_cumsum_from length_diff_norms)
  have interp: "np_interp x ?cum (map f ?cl) = Inr (map (interp_at ?cum (map f ?cl)) x)"
    for x and f :: "track_row \<Rightarrow> real"
  proof (rule np_interp_Inr)
    show "?cum \<noteq> []" by simp
    show "length (map f ?cl) = length ?cum" unfolding len by simp
  qed
  have rows: "map (\<lambda>i. \<lparr>x_pos = map f0 ts ! i, y_pos = map f1 ts ! i,
                          w_tr_right = map f2 ts ! i, w_tr_left = map f3 ts ! i\<rparr>) [0..<n]
              = map (\<lambda>t. \<lparr>x_pos = f0 t, y_pos = f1 t, w_tr_right = f2 t, w_tr_left = f3 t\<rparr>) ts"
    if "n = length ts" for f0 f1 f2 f3 :: "real \<Rightarrow> real" and ts :: "real list" and n
    using that by (intro nth_equalityI) simp_all
  have step: "prep_stage track stepsize_prep =
      (case int_ceil_div ?total stepsize_prep of
         Inl e \<Rightarrow> Inl e
       | Inr c \<Rightarrow>
         case np_linspace 0 ?total (c + 1) of
           Inl e \<Rightarrow> Inl e
         | Inr targets \<Rightarrow>
             Inr \<lparr>track_cl = ?cl,
                  no_points_track_cl = length ?cl,
                  el_lengths_cl = ?el,
                  dists_cum_cl = ?cum,
                  no_points_interp_cl = c + 1,
                  dists_interp_cl = targets,
                  track_interp_cl =
                    map (\<lambda>i. \<lparr>x_pos = map (interp_at ?cum (map x_pos ?cl)) targets ! i,
                               y_pos = map (interp_at ?cum (map y_pos ?cl)) targets ! i,
                               w_tr_right = map (interp_at ?cum (map w_tr_right ?cl)) targets ! i,
                               w_tr_left = map (interp_at ?cum (map w_tr_left ?cl)) targets ! i\<rparr>)
                      [0..<nat (c + 1)]\<rparr>)"
    unfolding prep_stage_def list.case_eq_if Let_def last interp
    using False by (simp only: if_False sum.case)
  show ?thesis
  proof (cases "stepsize_prep = 0")
    case True
    then show ?thesis
      unfolding step using False by (simp add: int_ceil_div_def Let_def)
  next
    case nz: False
    show ?thesis
    proof (cases "?N < 0")
      case True
      then show ?thesis
        unfolding step using False nz by (simp add: int_ceil_div_def np_linspace_def Let_def)
    next
      case nonneg: False
      have "length (linspace_pts 0 ?total (nat ?N)) = nat ?N" by (rule length_linspace_pts)
      then have r: "map (\<lambda>i. \<lparr>x_pos = map f0 (linspace_pts 0 ?total (nat ?N)) ! i,
                              y_pos = map f1 (linspace_pts 0 ?total (nat ?N)) ! i,
                              w_tr_right = map f2 (linspace_pts 0 ?total (nat ?N)) ! i,
                              w_tr_left = map f3 (linspace_pts 0 ?total (nat ?N)) ! i\<rparr>)
                      [0..<nat ?N]
          = map (\<lambda>t. \<lparr>x_pos = f0 t, y_pos = f1 t, w_tr_right = f2 t, w_tr_left = f3 t\<rparr>)
              (linspace_pts 0 ?total (nat ?N))" for f0 f1 f2 f3 :: "real \<Rightarrow> real"
        by (intro rows) simp
      have ic: "int_ceil_div ?total stepsize_prep = Inr \<lceil>?total / stepsize_prep\<rceil>"
        using nz by (simp add: int_ceil_div_def)
      have ls: "np_linspace 0 ?total ?N = Inr (linspace_pts 0 ?total (nat ?N))"
        using nonneg by (simp add: np_linspace_def)
      have n: "length ?cl = length track + 1" by simp
      show ?thesis
        unfolding step ic sum.case ls r n using False nz nonneg
        by (simp only: if_False Let_def)
    qed
  qed
qed

text \<open>What a part that has returned says about its local variables.\<close>

lemma prep_stage_D:
  assumes "prep_stage track stepsize_prep = Inr p"
  shows "track \<noteq> []"
    and "track_cl p = track @ [hd track]"
    and "no_points_track_cl p = length track + 1"
    and "el_lengths_cl p = diff_norms (map xy (track_cl p))"
    and "dists_cum_cl p = 0 # np_cumsum (el_lengths_cl p)"
    and "stepsize_prep \<noteq> 0"
    and "no_points_interp_cl p = \<lceil>sum_list (el_lengths_cl p) / stepsize_prep\<rceil> + 1"
    and "0 \<le> no_points_interp_cl p"
    and "dists_interp_cl p =
           linspace_pts 0 (sum_list (el_lengths_cl p)) (nat (no_points_interp_cl p))"
    and "track_interp_cl p =
           map (\<lambda>t. \<lparr>x_pos = interp_at (dists_cum_cl p) (map x_pos (track_cl p)) t,
                      y_pos = interp_at (dists_cum_cl p) (map y_pos (track_cl p)) t,
                      w_tr_right = interp_at (dists_cum_cl p) (map w_tr_right (track_cl p)) t,
                      w_tr_left = interp_at (dists_cum_cl p) (map w_tr_left (track_cl p)) t\<rparr>)
             (dists_interp_cl p)"
  using assms unfolding prep_stage_eq Let_def
  by (auto split: if_splits)

lemma prep_stage_lengths:
  assumes "prep_stage track stepsize_prep = Inr p"
  shows "length (track_cl p) = no_points_track_cl p"
    and "length (el_lengths_cl p) = no_points_track_cl p - 1"
    and "length (dists_cum_cl p) = no_points_track_cl p"
    and "2 \<le> no_points_track_cl p"
    and "last (dists_cum_cl p) = sum_list (el_lengths_cl p)"
proof -
  note D = prep_stage_D [OF assms]
  show 1: "length (track_cl p) = no_points_track_cl p" by (simp add: D(2,3))
  show 2: "length (el_lengths_cl p) = no_points_track_cl p - 1"
    by (simp add: D(4) length_diff_norms 1)
  show "2 \<le> no_points_track_cl p" using D(1) by (cases track) (simp_all add: D(3))
  then show "length (dists_cum_cl p) = no_points_track_cl p"
    by (simp add: D(5) np_cumsum_def length_cumsum_from 2)
  show "last (dists_cum_cl p) = sum_list (el_lengths_cl p)"
    by (simp only: D(5) last_dists_cum)
qed

lemma smooth_stage_D:
  assumes "smooth_stage c p k_reg s_reg stepsize_reg = Inr sm"
  shows "splprep c (map x_pos (track_interp_cl p)) (map y_pos (track_interp_cl p)) k_reg s_reg
           = Inr (tck_cl sm, t_glob_cl sm)"
    and "no_points_lencalc_cl sm = \<lceil>last (dists_cum_cl p)\<rceil> * 4"
    and "path_smoothed_tmp sm =
           map (\<lambda>t. splev c t (tck_cl sm)) (linspace_pts 0 1 (nat (no_points_lencalc_cl sm)))"
    and "len_path_smoothed_tmp sm = sum_list (diff_norms (path_smoothed_tmp sm))"
    and "stepsize_reg \<noteq> 0"
    and "no_points_reg_cl sm = \<lceil>len_path_smoothed_tmp sm / stepsize_reg\<rceil> + 1"
    and "0 \<le> no_points_reg_cl sm"
    and "t_reg_cl sm = linspace_pts 0 1 (nat (no_points_reg_cl sm))"
    and "path_smoothed sm = butlast (map (\<lambda>t. splev c t (tck_cl sm)) (t_reg_cl sm))"
  using assms
  by (auto simp: smooth_stage_def Let_def int_ceil_div_def np_linspace_def
      split: sum.splits prod.splits if_splits)

lemma width_stage_D:
  assumes "width_stage c p tck no_points_reg = Inr w"
  shows "last (dists_cum_cl p) \<noteq> 0"
    and "0 \<le> no_points_reg"
    and "t_glob_guess_cl w = map (\<lambda>d. d / last (dists_cum_cl p)) (dists_cum_cl p)"
    and "closest_t_glob_cl w =
           map (\<lambda>i. fst (closest_on_spline c tck (track_cl p) (t_glob_guess_cl w) i))
             [0..<no_points_track_cl p]"
    and "closest_point_cl w =
           map (\<lambda>i. fst (snd (closest_on_spline c tck (track_cl p) (t_glob_guess_cl w) i)))
             [0..<no_points_track_cl p]"
    and "dists_cl w =
           map (\<lambda>i. snd (snd (closest_on_spline c tck (track_cl p) (t_glob_guess_cl w) i)))
             [0..<no_points_track_cl p]"
    and "sides w =
           map (\<lambda>i. side_of_line c (xy (track_cl p ! i)) (xy (track_cl p ! (i + 1)))
                       (closest_point_cl w ! i))
             [0..<no_points_track_cl p - 1]"
    and "sides w \<noteq> []"
    and "sides_cl w = sides w @ [sides w ! 0]"
    and "w_tr_right_new_cl w =
           map (\<lambda>(w, s, d). w + s * d)
             (zip (map w_tr_right (track_cl p)) (zip (sides_cl w) (dists_cl w)))"
    and "w_tr_left_new_cl w =
           map (\<lambda>(w, s, d). w - s * d)
             (zip (map w_tr_left (track_cl p)) (zip (sides_cl w) (dists_cl w)))"
    and "w_tr_right_smoothed_cl w =
           map (interp_at (closest_t_glob_cl w) (w_tr_right_new_cl w))
             (linspace_pts 0 1 (nat no_points_reg))"
    and "w_tr_left_smoothed_cl w =
           map (interp_at (closest_t_glob_cl w) (w_tr_left_new_cl w))
             (linspace_pts 0 1 (nat no_points_reg))"
proof -
  let ?guess = "map (\<lambda>d. d / last (dists_cum_cl p)) (dists_cum_cl p)"
  let ?closest = "map (closest_on_spline c tck (track_cl p) ?guess) [0..<no_points_track_cl p]"
  let ?sides = "map (\<lambda>i. side_of_line c (xy (track_cl p ! i)) (xy (track_cl p ! (i + 1)))
                            (map (fst \<circ> snd) ?closest ! i)) [0..<no_points_track_cl p - 1]"
  let ?sides_cl = "?sides @ [hd ?sides]"
  let ?right = "map (\<lambda>(w, s, d). w + s * d)
      (zip (map w_tr_right (track_cl p)) (zip ?sides_cl (map (snd \<circ> snd) ?closest)))"
  let ?left = "map (\<lambda>(w, s, d). w - s * d)
      (zip (map w_tr_left (track_cl p)) (zip ?sides_cl (map (snd \<circ> snd) ?closest)))"
  let ?t_reg = "linspace_pts 0 1 (nat no_points_reg)"
  have nz: "last (dists_cum_cl p) \<noteq> 0"
    using assms by (auto simp: width_stage_def)
  have ne: "?sides \<noteq> []"
    using assms nz unfolding width_stage_def Let_def by (auto split: list.splits)
  have nn: "0 \<le> no_points_reg"
    using assms nz ne unfolding width_stage_def Let_def list.case_eq_if np_linspace_def
    by (auto split: if_splits)
  have eq: "w = \<lparr>t_glob_guess_cl = ?guess,
               closest_t_glob_cl = map fst ?closest,
               closest_point_cl = map (fst \<circ> snd) ?closest,
               dists_cl = map (snd \<circ> snd) ?closest,
               sides = ?sides,
               sides_cl = ?sides_cl,
               w_tr_right_new_cl = ?right,
               w_tr_left_new_cl = ?left,
               w_tr_right_smoothed_cl = map (interp_at (map fst ?closest) ?right) ?t_reg,
               w_tr_left_smoothed_cl = map (interp_at (map fst ?closest) ?left) ?t_reg\<rparr>"
    using assms nz ne nn
    unfolding width_stage_def Let_def list.case_eq_if np_linspace_def np_interp_def
    by (simp split: if_splits)
  have hd0: "hd ?sides = ?sides ! 0" using ne by (rule hd_conv_nth)
  have cmap: "map (\<lambda>i. g (closest_on_spline c tck (track_cl p) ?guess i)) [0..<no_points_track_cl p]
      = map g ?closest" for g :: "real \<times> (real \<times> real) \<times> real \<Rightarrow> 'x"
    by simp
  show "last (dists_cum_cl p) \<noteq> 0" by (rule nz)
  show "0 \<le> no_points_reg" by (rule nn)
  show "t_glob_guess_cl w = ?guess" by (subst eq) simp
  show "closest_t_glob_cl w =
           map (\<lambda>i. fst (closest_on_spline c tck (track_cl p) (t_glob_guess_cl w) i))
             [0..<no_points_track_cl p]" by (subst (1 2) eq) simp
  show "closest_point_cl w =
           map (\<lambda>i. fst (snd (closest_on_spline c tck (track_cl p) (t_glob_guess_cl w) i)))
             [0..<no_points_track_cl p]" by (subst (1 2) eq) simp
  show "dists_cl w =
           map (\<lambda>i. snd (snd (closest_on_spline c tck (track_cl p) (t_glob_guess_cl w) i)))
             [0..<no_points_track_cl p]" by (subst (1 2) eq) simp
  show "sides w =
           map (\<lambda>i. side_of_line c (xy (track_cl p ! i)) (xy (track_cl p ! (i + 1)))
                       (closest_point_cl w ! i))
             [0..<no_points_track_cl p - 1]" by (subst (1 2) eq) simp
  show "sides w \<noteq> []" using ne by (subst eq) simp
  show "sides_cl w = sides w @ [sides w ! 0]" using hd0 by (subst (1 2 3) eq) simp
  show "w_tr_right_new_cl w =
           map (\<lambda>(w, s, d). w + s * d)
             (zip (map w_tr_right (track_cl p)) (zip (sides_cl w) (dists_cl w)))"
    by (subst (1 2 3) eq) simp
  show "w_tr_left_new_cl w =
           map (\<lambda>(w, s, d). w - s * d)
             (zip (map w_tr_left (track_cl p)) (zip (sides_cl w) (dists_cl w)))"
    by (subst (1 2 3) eq) simp
  show "w_tr_right_smoothed_cl w =
           map (interp_at (closest_t_glob_cl w) (w_tr_right_new_cl w))
             (linspace_pts 0 1 (nat no_points_reg))" by (subst (1 2 3) eq) simp
  show "w_tr_left_smoothed_cl w =
           map (interp_at (closest_t_glob_cl w) (w_tr_left_new_cl w))
             (linspace_pts 0 1 (nat no_points_reg))" by (subst (1 2 3) eq) simp
qed

lemma width_stage_lengths:
  assumes "width_stage c p tck no_points_reg = Inr w"
    and "length (track_cl p) = no_points_track_cl p"
  shows "length (closest_t_glob_cl w) = no_points_track_cl p"
    and "length (closest_point_cl w) = no_points_track_cl p"
    and "length (dists_cl w) = no_points_track_cl p"
    and "length (sides w) = no_points_track_cl p - 1"
    and "length (sides_cl w) = no_points_track_cl p"
    and "length (w_tr_right_new_cl w) = no_points_track_cl p"
    and "length (w_tr_left_new_cl w) = no_points_track_cl p"
    and "length (w_tr_right_smoothed_cl w) = nat no_points_reg"
    and "length (w_tr_left_smoothed_cl w) = nat no_points_reg"
proof -
  note D = width_stage_D [OF assms(1)]
  show "length (closest_t_glob_cl w) = no_points_track_cl p" by (simp add: D(4))
  show "length (closest_point_cl w) = no_points_track_cl p" by (simp add: D(5))
  show d: "length (dists_cl w) = no_points_track_cl p" by (simp add: D(6))
  show s: "length (sides w) = no_points_track_cl p - 1" by (simp add: D(7))
  have "0 < length (sides w)" using D(8) by simp
  then show sc: "length (sides_cl w) = no_points_track_cl p" using s by (simp add: D(9))
  show "length (w_tr_right_new_cl w) = no_points_track_cl p"
    by (simp add: D(10) sc d assms(2))
  show "length (w_tr_left_new_cl w) = no_points_track_cl p"
    by (simp add: D(11) sc d assms(2))
  show "length (w_tr_right_smoothed_cl w) = nat no_points_reg"
    by (simp add: D(12) length_linspace_pts)
  show "length (w_tr_left_smoothed_cl w) = nat no_points_reg"
    by (simp add: D(13) length_linspace_pts)
qed

lemma closest_on_spline_parts:
  "fst (closest_on_spline c tck cl guess i) =
     fmin c (\<lambda>t_glob. dist_to_p c t_glob tck (xy (cl ! i))) (guess ! i)"
  "fst (snd (closest_on_spline c tck cl guess i)) =
     splev c (fst (closest_on_spline c tck cl guess i)) tck"
  "snd (snd (closest_on_spline c tck cl guess i)) =
     euclidean (fst (snd (closest_on_spline c tck cl guess i))) (xy (cl ! i))"
  by (simp_all add: closest_on_spline_def Let_def euclidean_def xy_def)

lemma width_new_nth:
  assumes "width_stage c p tck no_points_reg = Inr w"
    and "length (track_cl p) = no_points_track_cl p"
    and "i < no_points_track_cl p"
  shows "w_tr_right_new_cl w ! i = w_tr_right (track_cl p ! i) + sides_cl w ! i * dists_cl w ! i"
    and "w_tr_left_new_cl w ! i = w_tr_left (track_cl p ! i) - sides_cl w ! i * dists_cl w ! i"
proof -
  note D = width_stage_D [OF assms(1)] and L = width_stage_lengths [OF assms(1,2)]
  show "w_tr_right_new_cl w ! i = w_tr_right (track_cl p ! i) + sides_cl w ! i * dists_cl w ! i"
    unfolding D(10) using assms(2,3) L(3,5) by simp
  show "w_tr_left_new_cl w ! i = w_tr_left (track_cl p ! i) - sides_cl w ! i * dists_cl w ! i"
    unfolding D(11) using assms(2,3) L(3,5) by simp
qed


lemma column_stack_xy:
  assumes "length path \<le> length w_right" and "length path \<le> length w_left"
  shows "map xy (column_stack path w_right w_left) = path"
  using assms by (intro nth_equalityI) (simp_all add: column_stack_def xy_def)

lemma run_D:
  assumes "spline_approximation_run c track k_reg s_reg stepsize_prep stepsize_reg debug = Inr r"
  shows "prep_stage track stepsize_prep = Inr (prep_vars r)"
    and "smooth_stage c (prep_vars r) k_reg s_reg stepsize_reg = Inr (smooth_vars r)"
    and "width_stage c (prep_vars r) (tck_cl (smooth_vars r)) (no_points_reg_cl (smooth_vars r))
           = Inr (width_vars r)"
    and "stdout r = (if debug then [debug_line (dists_cl (width_vars r))] else [])"
    and "track_reg r = column_stack (path_smoothed (smooth_vars r))
                         (butlast (w_tr_right_smoothed_cl (width_vars r)))
                         (butlast (w_tr_left_smoothed_cl (width_vars r)))"
  using assms
  by (auto simp: spline_approximation_run_def split: sum.splits)

section \<open>The worked run, step by step\<close>

lemma sqrt_eqI: "0 \<le> r \<Longrightarrow> r * r = a \<Longrightarrow> sqrt a = r"
  by (metis real_sqrt_abs2 abs_of_nonneg power2_eq_square real_sqrt_abs)

lemma sq100: "sqrt (1/100) = 1/10" by (rule sqrt_eqI) simp_all

lemma demo_prep_stage: "prep_stage demo_track (1/10) = Inr demo_prep"
  by (simp add: prep_stage_def demo_track_def demo_prep_def diff_norms_def xy_def np_cumsum_def sq100
      int_ceil_div_def np_linspace_def linspace_pts_def np_interp_def interp_at_def search_index_def Let_def
      upt_conv_Cons numeral_2_eq_2 numeral_3_eq_3)

lemma sq4: "sqrt (1/4) = 1/2" by (rule sqrt_eqI) simp_all
lemma sq1625: "sqrt (16/25) = 4/5" by (rule sqrt_eqI) simp_all
lemma sq125: "sqrt (1/25) = 1/5" by (rule sqrt_eqI) simp_all
lemma sq1400: "sqrt (1/400) = 1/20" by (rule sqrt_eqI) simp_all
lemma sq116: "sqrt (1/16) = 1/4" by (rule sqrt_eqI) simp_all
lemmas demo_sqrt = sq100 sq4 sq1625 sq125 sq1400 sq116

lemma ceil15: "\<lceil>1/5 :: real\<rceil> = 1" by (simp add: ceiling_eq_iff)

lemma linspace_4: "linspace_pts 0 1 4 = [0, 1/3, 2/3, 1]"
  unfolding linspace_pts_def by (simp add: upt_conv_Cons eval_nat_numeral)

lemma linspace_3: "linspace_pts 0 1 3 = [0, 1/2, 1]"
  unfolding linspace_pts_def by (simp add: upt_conv_Cons eval_nat_numeral)

lemma linspace_3_Suc: "linspace_pts 0 1 (Suc (Suc (Suc 0))) = [0, 1/2, 1]"
  using linspace_3 by (simp add: numeral_3_eq_3)

lemma demo_smooth_stage: "smooth_stage demo demo_prep 1 0 (9/10) = Inr demo_smooth"
  by (simp add: smooth_stage_def demo_def demo_splprep_def demo_splev_def demo_prep_def
      demo_smooth_def demo_track_def diff_norms_def demo_sqrt ceil15 linspace_4 linspace_3 linspace_3_Suc
      int_ceil_div_def np_linspace_def Let_def power2_eq_square)

lemma demo_closest_0:
  "closest_on_spline demo () (track_cl demo_prep) [0, 1/2, 1] 0 = (1/10, (3/25, 4/25), 1/5)"
  by (simp add: closest_on_spline_def demo_def demo_fmin_def demo_splev_def dist_to_p_def
      euclidean_def demo_prep_def demo_track_def xy_def Let_def demo_sqrt power2_eq_square)

lemma demo_closest_1:
  "closest_on_spline demo () (track_cl demo_prep) [0, 1/2, 1] 1 = (1/2, (0, - 1/20), 1/20)"
proof -
  have "1/20 \<le> sqrt (601/10000)" by (rule real_le_rsqrt) (simp add: power2_eq_square)
  then show ?thesis
    by (simp add: closest_on_spline_def demo_def demo_fmin_def demo_splev_def dist_to_p_def
      euclidean_def demo_prep_def demo_track_def xy_def Let_def demo_sqrt power2_eq_square)
qed

lemma demo_closest_2:
  "closest_on_spline demo () (track_cl demo_prep) [0, 1/2, 1] 2 = (9/10, (- 3/25, 4/25), 1/5)"
  by (simp add: closest_on_spline_def demo_def demo_fmin_def demo_splev_def dist_to_p_def
      euclidean_def demo_prep_def demo_track_def xy_def Let_def demo_sqrt power2_eq_square)

lemma demo_closest:
  "map (closest_on_spline demo () (track_cl demo_prep) [0, 1/2, 1]) [0, 1, 2] =
     [(1/10, (3/25, 4/25), 1/5), (1/2, (0, - 1/20), 1/20), (9/10, (- 3/25, 4/25), 1/5)]"
  by (simp only: list.map demo_closest_0 demo_closest_1 demo_closest_2)

lemma demo_width_stage: "width_stage demo demo_prep () 3 = Inr demo_widths"
proof -
  have g: "map (\<lambda>d. d / last (dists_cum_cl demo_prep)) (dists_cum_cl demo_prep) = [0, 1/2, 1]"
    by (simp add: demo_prep_def)
  have n: "[0..<no_points_track_cl demo_prep] = [0, 1, 2]"
    "[0..<no_points_track_cl demo_prep - 1] = [0, 1]"
    by (simp_all add: demo_prep_def upt_conv_Cons numeral_2_eq_2 numeral_3_eq_3)
  have z: "last (dists_cum_cl demo_prep) \<noteq> 0" by (simp add: demo_prep_def)
  show ?thesis
    unfolding width_stage_def Let_def g n demo_closest
    using z
    by (simp add: demo_widths_def
        demo_def side_of_line_spec_def demo_prep_def demo_track_def xy_def
        np_linspace_def linspace_3 np_interp_def interp_at_def search_index_def)
qed

lemma demo_run_eq:
  "spline_approximation_run demo demo_track 1 0 (1/10) (9/10) debug = Inr (demo_run debug)"
  unfolding spline_approximation_run_def
  by (simp add: demo_prep_stage demo_smooth_stage)
     (simp add: demo_smooth_def demo_width_stage demo_run_def demo_widths_def
        column_stack_def debug_line_def)

section \<open>Properties of spline_approximation\<close>

subsection \<open>The resampling before the smoothing\<close>






subsection \<open>The smoothed path\<close>

text \<open>
  C3. In a run that returns, with \<open>stepsize_reg > 0\<close>: the length of the spline is
  measured as the sum of the distances between its sampled points; the spline is then
  evaluated at \<open>N = ceil(length / stepsize_reg) + 1\<close> parameters \<open>k / (N - 1)\<close> of
  \<open>[0, 1]\<close>, and the last of these points is dropped. The smoothed path so has
  \<open>ceil(length / stepsize_reg)\<close> points, all at parameters below \<open>1\<close>, and it is the
  \<open>x\<close>, \<open>y\<close> part of the track that the function returns.
\<close>

theorem smoothed_path_sampling:
  assumes "spline_approximation_run c track k_reg s_reg stepsize_prep stepsize_reg debug = Inr r"
    and "0 < stepsize_reg"
  shows "len_path_smoothed_tmp (smooth_vars r)
           = sum_list (diff_norms (path_smoothed_tmp (smooth_vars r)))
       \<and> no_points_reg_cl (smooth_vars r)
           = \<lceil>len_path_smoothed_tmp (smooth_vars r) / stepsize_reg\<rceil> + 1
       \<and> 1 \<le> no_points_reg_cl (smooth_vars r)
       \<and> int (length (t_reg_cl (smooth_vars r))) = no_points_reg_cl (smooth_vars r)
       \<and> (\<forall>k < length (t_reg_cl (smooth_vars r)).
             t_reg_cl (smooth_vars r) ! k =
               (if no_points_reg_cl (smooth_vars r) = 1 then 0
                else real k / real_of_int (no_points_reg_cl (smooth_vars r) - 1))
             \<and> 0 \<le> t_reg_cl (smooth_vars r) ! k \<and> t_reg_cl (smooth_vars r) ! k \<le> 1)
       \<and> path_smoothed (smooth_vars r)
           = butlast (map (\<lambda>t. splev c t (tck_cl (smooth_vars r))) (t_reg_cl (smooth_vars r)))
       \<and> int (length (path_smoothed (smooth_vars r)))
           = \<lceil>len_path_smoothed_tmp (smooth_vars r) / stepsize_reg\<rceil>
       \<and> (\<forall>k < length (path_smoothed (smooth_vars r)).
             path_smoothed (smooth_vars r) ! k
               = splev c (t_reg_cl (smooth_vars r) ! k) (tck_cl (smooth_vars r))
             \<and> t_reg_cl (smooth_vars r) ! k < 1)
       \<and> map xy (track_reg r) = path_smoothed (smooth_vars r)
       \<and> spline_approximation c track k_reg s_reg stepsize_prep stepsize_reg debug
           = Inr (track_reg r)"
proof -
  let ?sm = "smooth_vars r" and ?w = "width_vars r"
  let ?N = "no_points_reg_cl ?sm"
  let ?len = "len_path_smoothed_tmp ?sm"
  let ?ts = "t_reg_cl ?sm"
  note R = run_D [OF assms(1)]
  note S = smooth_stage_D [OF R(2)]
  note PL = prep_stage_lengths [OF R(1)]
  note WL = width_stage_lengths [OF R(3) PL(1)]
  have len0: "0 \<le> ?len" unfolding S(4) by (rule sum_list_diff_norms_nonneg)
  then have "0 \<le> ?len / stepsize_reg" using assms(2) by simp
  then have "0 \<le> \<lceil>?len / stepsize_reg\<rceil>" by linarith
  then have N1: "1 \<le> ?N" unfolding S(6) by simp
  have lts: "length ?ts = nat ?N" unfolding S(8) by (rule length_linspace_pts)
  then have ilts: "int (length ?ts) = ?N" using N1 by simp
  have rN: "real (nat ?N - 1) = real_of_int (?N - 1)" using N1 by simp
  have nth_ts: "?ts ! k = (if ?N = 1 then 0 else real k / real_of_int (?N - 1))"
    if "k < length ?ts" for k
  proof -
    have "k < nat ?N" using that lts by simp
    then have "?ts ! k = (if nat ?N = 1 then 0 else 0 + real k * ((1 - 0) / real (nat ?N - 1)))"
      unfolding S(8) by (rule nth_linspace_pts)
    moreover have "(nat ?N = 1) = (?N = 1)" using N1 by auto
    ultimately show ?thesis using rN by simp
  qed
  have range: "0 \<le> ?ts ! k \<and> ?ts ! k \<le> 1" if "k < length ?ts" for k
  proof (cases "?N = 1")
    case True
    then show ?thesis using nth_ts [OF that] by simp
  next
    case False
    then have pos: "0 < real_of_int (?N - 1)" using N1 by simp
    have "int k \<le> ?N - 1" using that lts N1 by simp
    then have "real_of_int (int k) \<le> real_of_int (?N - 1)" by (simp only: of_int_le_iff)
    then have "real k \<le> real_of_int (?N - 1)" by simp
    then show ?thesis using nth_ts [OF that] False pos by simp
  qed
  have lpath: "length (path_smoothed ?sm) = nat ?N - 1" unfolding S(9) using lts by simp
  then have "int (length (path_smoothed ?sm)) = ?N - 1" using N1 by simp
  then have ilpath: "int (length (path_smoothed ?sm)) = \<lceil>?len / stepsize_reg\<rceil>"
    using S(6) by linarith
  have nth_path: "path_smoothed ?sm ! k = splev c (?ts ! k) (tck_cl ?sm) \<and> ?ts ! k < 1"
    if "k < length (path_smoothed ?sm)" for k
  proof -
    have k: "k < nat ?N - 1" using that lpath by simp
    then have k': "k < length ?ts" using lts by simp
    have N2: "?N \<noteq> 1" using k by auto
    have "path_smoothed ?sm ! k = map (\<lambda>t. splev c t (tck_cl ?sm)) ?ts ! k"
      unfolding S(9) using k lts by (intro nth_butlast) simp
    then have a: "path_smoothed ?sm ! k = splev c (?ts ! k) (tck_cl ?sm)" using k' by simp
    have pos: "0 < real_of_int (?N - 1)" using N1 N2 by simp
    have "int k < ?N - 1" using k N1 by simp
    then have "real_of_int (int k) < real_of_int (?N - 1)" by (simp only: of_int_less_iff)
    then have "real k < real_of_int (?N - 1)" by simp
    then have "?ts ! k < 1" using nth_ts [OF k'] N2 pos by simp
    with a show ?thesis by simp
  qed
  have "map xy (track_reg r) = path_smoothed ?sm"
    unfolding R(5) using lpath WL(8,9) by (intro column_stack_xy) simp_all
  moreover have "spline_approximation c track k_reg s_reg stepsize_prep stepsize_reg debug
      = Inr (track_reg r)"
    by (simp add: spline_approximation_def assms(1))
  ultimately show ?thesis
    using S(4) S(6) N1 ilts nth_ts range S(9) ilpath nth_path by simp
qed

theorem smoothed_path_sampling_witness:
  "spline_approximation_run demo demo_track 1 0 (1/10) (9/10) False = Inr (demo_run False)
   \<and> (0 :: real) < 9/10
   \<and> len_path_smoothed_tmp (smooth_vars (demo_run False)) = 9/5
   \<and> no_points_reg_cl (smooth_vars (demo_run False)) = \<lceil>(9/5) / (9/10) :: real\<rceil> + 1
   \<and> t_reg_cl (smooth_vars (demo_run False)) = [0, 1/2, 1]
   \<and> int (length (path_smoothed (smooth_vars (demo_run False)))) = \<lceil>(9/5) / (9/10) :: real\<rceil>
   \<and> map xy (track_reg (demo_run False)) = path_smoothed (smooth_vars (demo_run False))
   \<and> spline_approximation demo demo_track 1 0 (1/10) (9/10) False
       = Inr (track_reg (demo_run False))"
proof -
  let ?sm = "smooth_vars (demo_run False)"
  have s: "(0 :: real) < 9/10" by simp
  note T = smoothed_path_sampling [OF demo_run_eq s]
  have len: "len_path_smoothed_tmp ?sm = 9/5" and ts: "t_reg_cl ?sm = [0, 1/2, 1]"
    by (simp_all add: demo_run_def demo_smooth_def)
  have "no_points_reg_cl ?sm = \<lceil>len_path_smoothed_tmp ?sm / (9/10)\<rceil> + 1"
    using T by blast
  then have n: "no_points_reg_cl ?sm = \<lceil>(9/5) / (9/10) :: real\<rceil> + 1"
    by (simp only: len)
  have "int (length (path_smoothed ?sm)) = \<lceil>len_path_smoothed_tmp ?sm / (9/10)\<rceil>"
    using T by blast
  then have l: "int (length (path_smoothed ?sm)) = \<lceil>(9/5) / (9/10) :: real\<rceil>"
    by (simp only: len)
  have x: "map xy (track_reg (demo_run False)) = path_smoothed ?sm"
    using T by blast
  have r: "spline_approximation demo demo_track 1 0 (1/10) (9/10) False
       = Inr (track_reg (demo_run False))"
    using T by blast
  show ?thesis using demo_run_eq [of False] s len n ts l x r by blast
qed

subsection \<open>The closest points on the spline\<close>

text \<open>
  C4. In a run that returns, for every point \<open>i\<close> of the closed track: the start guess
  is the cumulative distance of the point divided by the perimeter; \<open>fmin\<close> is called
  with the distance from the point to the spline as objective and this guess, and its
  result is recorded in \<open>closest_t_glob_cl\<close>; \<open>closest_point_cl\<close> holds the spline at
  that parameter and \<open>dists_cl\<close> the Euclidean distance between that point and the
  point of the track.
\<close>

theorem projector_records:
  assumes "spline_approximation_run c track k_reg s_reg stepsize_prep stepsize_reg debug = Inr r"
    and "i < no_points_track_cl (prep_vars r)"
  shows "no_points_track_cl (prep_vars r) = length (track_cl (prep_vars r))
       \<and> dists_cum_cl (prep_vars r) ! i = sum_list (take i (el_lengths_cl (prep_vars r)))
       \<and> t_glob_guess_cl (width_vars r) ! i =
           dists_cum_cl (prep_vars r) ! i / sum_list (el_lengths_cl (prep_vars r))
       \<and> closest_t_glob_cl (width_vars r) ! i =
           fmin c (\<lambda>t_glob. dist_to_p c t_glob (tck_cl (smooth_vars r))
                               (xy (track_cl (prep_vars r) ! i)))
             (t_glob_guess_cl (width_vars r) ! i)
       \<and> (\<forall>t_glob. dist_to_p c t_glob (tck_cl (smooth_vars r)) (xy (track_cl (prep_vars r) ! i))
             = euclidean (xy (track_cl (prep_vars r) ! i))
                 (splev c t_glob (tck_cl (smooth_vars r))))
       \<and> closest_point_cl (width_vars r) ! i =
           splev c (closest_t_glob_cl (width_vars r) ! i) (tck_cl (smooth_vars r))
       \<and> dists_cl (width_vars r) ! i =
           euclidean (closest_point_cl (width_vars r) ! i) (xy (track_cl (prep_vars r) ! i))"
proof -
  let ?p = "prep_vars r" and ?w = "width_vars r" and ?tck = "tck_cl (smooth_vars r)"
  note R = run_D [OF assms(1)]
  note P = prep_stage_D [OF R(1)] and PL = prep_stage_lengths [OF R(1)]
  note W = width_stage_D [OF R(3)]
  have i: "i < length (dists_cum_cl ?p)" using assms(2) PL(3) by simp
  have "dists_cum_cl ?p ! i = sum_list (take i (el_lengths_cl ?p))"
    unfolding P(5) using assms(2) PL(2) by (intro nth_dists_cum) simp
  moreover have "t_glob_guess_cl ?w ! i = dists_cum_cl ?p ! i / sum_list (el_lengths_cl ?p)"
    unfolding W(3) PL(5) using i by simp
  moreover have "closest_t_glob_cl ?w ! i =
      fmin c (\<lambda>t_glob. dist_to_p c t_glob ?tck (xy (track_cl ?p ! i))) (t_glob_guess_cl ?w ! i)"
    using assms(2) by (simp add: W(4) closest_on_spline_parts(1))
  moreover have "closest_point_cl ?w ! i = splev c (closest_t_glob_cl ?w ! i) ?tck"
    using assms(2) by (simp add: W(4) W(5) closest_on_spline_parts(2))
  moreover have "dists_cl ?w ! i = euclidean (closest_point_cl ?w ! i) (xy (track_cl ?p ! i))"
    using assms(2) by (simp add: W(5) W(6) closest_on_spline_parts(3))
  moreover have "dist_to_p c t_glob ?tck q = euclidean q (splev c t_glob ?tck)" for t_glob q
    by (simp add: dist_to_p_def)
  ultimately show ?thesis using PL(1) by simp
qed

theorem projector_records_witness:
  "spline_approximation_run demo demo_track 1 0 (1/10) (9/10) False = Inr (demo_run False)
   \<and> (2 :: nat) < no_points_track_cl (prep_vars (demo_run False))
   \<and> t_glob_guess_cl (width_vars (demo_run False)) ! 2 = 1
   \<and> closest_t_glob_cl (width_vars (demo_run False)) ! 2 =
       fmin demo (\<lambda>t_glob. dist_to_p demo t_glob () (0, 0)) 1
   \<and> closest_point_cl (width_vars (demo_run False)) ! 2 = splev demo (9/10) ()
   \<and> dists_cl (width_vars (demo_run False)) ! 2 = euclidean (- 3/25, 4/25) (0, 0)"
proof -
  let ?p = "prep_vars (demo_run False)" and ?w = "width_vars (demo_run False)"
    and ?sm = "smooth_vars (demo_run False)"
  have i: "2 < no_points_track_cl ?p"
    by (simp add: demo_run_def demo_prep_def)
  note T = projector_records [OF demo_run_eq i]
  have ev: "tck_cl ?sm = ()" "xy (track_cl ?p ! 2) = (0, 0)"
    "dists_cum_cl ?p ! 2 / sum_list (el_lengths_cl ?p) = 1"
    "closest_t_glob_cl ?w ! 2 = 9/10" "closest_point_cl ?w ! 2 = (- 3/25, 4/25)"
    by (simp_all add: demo_run_def demo_prep_def demo_widths_def demo_track_def xy_def)
  have guess: "t_glob_guess_cl ?w ! 2 = 1" using T ev(3) by simp
  have "closest_t_glob_cl ?w ! 2 =
      fmin demo (\<lambda>t_glob. dist_to_p demo t_glob (tck_cl ?sm) (xy (track_cl ?p ! 2)))
        (t_glob_guess_cl ?w ! 2)"
    using T by blast
  then have t: "closest_t_glob_cl ?w ! 2 = fmin demo (\<lambda>t_glob. dist_to_p demo t_glob () (0, 0)) 1"
    by (simp only: guess ev(1,2))
  have "closest_point_cl ?w ! 2 = splev demo (closest_t_glob_cl ?w ! 2) (tck_cl ?sm)"
    using T by blast
  then have pt: "closest_point_cl ?w ! 2 = splev demo (9/10) ()"
    by (simp only: ev(1,4))
  have "dists_cl ?w ! 2 = euclidean (closest_point_cl ?w ! 2) (xy (track_cl ?p ! 2))"
    using T by blast
  then have d: "dists_cl ?w ! 2 = euclidean (- 3/25, 4/25) (0, 0)"
    by (simp only: ev(2,5))
  show ?thesis using demo_run_eq [of False] i guess t pt d by blast
qed

subsection \<open>The new track widths\<close>




text \<open>
  C10. In a run that returns, \<open>sides_cl\<close> is \<open>sides\<close> with its first entry appended:
  the sign of the last point of the closed track is the sign of the first, and the
  widths at the first and the last point are corrected with that one sign.
\<close>

theorem closing_side_copies_first:
  assumes "spline_approximation_run c track k_reg s_reg stepsize_prep stepsize_reg debug = Inr r"
  shows "2 \<le> no_points_track_cl (prep_vars r)
       \<and> length (sides_cl (width_vars r)) = no_points_track_cl (prep_vars r)
       \<and> sides_cl (width_vars r) = sides (width_vars r) @ [sides (width_vars r) ! 0]
       \<and> sides_cl (width_vars r) ! (no_points_track_cl (prep_vars r) - 1)
           = sides_cl (width_vars r) ! 0
       \<and> w_tr_right_new_cl (width_vars r) ! 0 =
           w_tr_right (track_cl (prep_vars r) ! 0)
             + sides_cl (width_vars r) ! 0 * dists_cl (width_vars r) ! 0
       \<and> w_tr_right_new_cl (width_vars r) ! (no_points_track_cl (prep_vars r) - 1) =
           w_tr_right (track_cl (prep_vars r) ! (no_points_track_cl (prep_vars r) - 1))
             + sides_cl (width_vars r) ! 0
               * dists_cl (width_vars r) ! (no_points_track_cl (prep_vars r) - 1)
       \<and> w_tr_left_new_cl (width_vars r) ! 0 =
           w_tr_left (track_cl (prep_vars r) ! 0)
             - sides_cl (width_vars r) ! 0 * dists_cl (width_vars r) ! 0
       \<and> w_tr_left_new_cl (width_vars r) ! (no_points_track_cl (prep_vars r) - 1) =
           w_tr_left (track_cl (prep_vars r) ! (no_points_track_cl (prep_vars r) - 1))
             - sides_cl (width_vars r) ! 0
               * dists_cl (width_vars r) ! (no_points_track_cl (prep_vars r) - 1)"
proof -
  let ?n = "no_points_track_cl (prep_vars r)" and ?w = "width_vars r"
  note R = run_D [OF assms]
  note PL = prep_stage_lengths [OF R(1)]
  note W = width_stage_D [OF R(3)] and WL = width_stage_lengths [OF R(3) PL(1)]
  have n: "0 < ?n" "?n - 1 < ?n" using PL(4) by simp_all
  have "?n - 1 = length (sides ?w)" by (simp add: WL(4))
  then have closing: "sides_cl ?w ! (?n - 1) = sides ?w ! 0" by (simp add: W(9))
  have "sides_cl ?w ! 0 = sides ?w ! 0" using W(8) by (simp add: W(9) nth_append)
  with closing have same: "sides_cl ?w ! (?n - 1) = sides_cl ?w ! 0" by simp
  show ?thesis
    using PL(4) WL(5) W(9) same
      width_new_nth [OF R(3) PL(1) n(1)] width_new_nth [OF R(3) PL(1) n(2)]
    by simp
qed

theorem closing_side_copies_first_witness:
  "spline_approximation_run demo demo_track 1 0 (1/10) (9/10) False = Inr (demo_run False)
   \<and> no_points_track_cl (prep_vars (demo_run False)) - 1 = 2
   \<and> sides_cl (width_vars (demo_run False)) ! 2 = sides_cl (width_vars (demo_run False)) ! 0
   \<and> sides_cl (width_vars (demo_run False)) ! 0 = - 1"
proof -
  let ?p = "prep_vars (demo_run False)" and ?w = "width_vars (demo_run False)"
  have n: "no_points_track_cl ?p - 1 = 2" by (simp add: demo_run_def demo_prep_def)
  have "sides_cl ?w ! (no_points_track_cl ?p - 1) = sides_cl ?w ! 0"
    using closing_side_copies_first [OF demo_run_eq [of False]] by blast
  then have same: "sides_cl ?w ! 2 = sides_cl ?w ! 0" by (simp only: n)
  have "sides_cl ?w ! 0 = - 1" by (simp add: demo_run_def demo_widths_def)
  then show ?thesis using demo_run_eq [of False] n same by blast
qed

subsection \<open>Determinism\<close>



end
